theory Spec2Isabelle
  imports Complex_Main "HOL-Library.Sublist"
begin

section \<open>The marketing-mix dashboard callback (src/wireframe.py)\<close>

text \<open>
  The program is one Dash callback, \<^verbatim>\<open>update_graphs\<close>, over a module-level pandas
  frame \<^verbatim>\<open>df\<close>. The embedding follows the callback line by line:
  \<^item> lines 116-118: three boolean-mask selections (the filter stage);
  \<^item> lines 121-125: the local function \<^verbatim>\<open>adstock\<close>;
  \<^item> lines 127-132: four column assignments on the filtered frame;
  \<^item> line 175: the uplifted sales series handed to the last chart.

  Arguments: the callback's arguments are taken at the types its controls deliver: the
  objective and the product names are strings, the budget threshold and the two slider
  values are numbers, the two dates are timestamps.

  Numbers: the integer columns are pandas columns of 64-bit signed integers. A row
  keeps each as an \<open>int\<close>, and the one place where the callback adds two integer
  columns (line 118) wraps around as 64-bit addition does (\<open>wrap_int64\<close>).
  Floating-point values are \<open>real\<close>, so rounding is not modelled, nor is the rounding
  of an integer converted to a float; the places where a float operation leaves the
  reals (a power with a negative base or a zero base) are explicit in \<open>fval\<close>. Every
  exception the modelled lines can raise on arguments of these types is a value of
  \<open>error\<close>.
\<close>

subsection \<open>Errors and positional indexing\<close>

datatype error = IndexError | ValueError

text \<open>
  \<^verbatim>\<open>series.iloc[i]\<close> and \<^verbatim>\<open>result[i]\<close> for an integer \<open>i\<close>: a negative position
  counts from the end, a position outside the sequence raises \<^verbatim>\<open>IndexError\<close>.
\<close>

definition iloc :: "'a list \<Rightarrow> int \<Rightarrow> error + 'a" where
  "iloc xs i =
     (if 0 \<le> i \<and> i < int (length xs) then Inr (xs ! nat i)
      else if i < 0 \<and> - int (length xs) \<le> i then Inr (xs ! nat (int (length xs) + i))
      else Inl IndexError)"

subsection \<open>Adstock (lines 121-125)\<close>

text \<open>
  \<^verbatim>\<open>
  def adstock(series, alpha, beta):
      result = [series.iloc[0]]
      for i in range(1, len(series)):
          result.append(series.iloc[i] + alpha * result[i-1] * beta)
      return result
  \<close>
  The loop runs over the list of positions \<open>range(1, len(series))\<close>; each of the two
  indexed reads may raise. The function is written for any number type with \<open>+\<close> and
  \<open>*\<close>: what is proved of it below does not depend on the arithmetic. The callback
  applies it to real numbers.
\<close>

fun adstock_loop ::
  "'a::{plus,times} list \<Rightarrow> 'a \<Rightarrow> 'a \<Rightarrow> nat list \<Rightarrow> 'a list \<Rightarrow> error + 'a list" where
  "adstock_loop series alpha beta [] result = Inr result"
| "adstock_loop series alpha beta (i # rest) result =
     (case iloc series (int i) of
        Inl e \<Rightarrow> Inl e
      | Inr s \<Rightarrow>
          (case iloc result (int i - 1) of
             Inl e \<Rightarrow> Inl e
           | Inr r \<Rightarrow> adstock_loop series alpha beta rest (result @ [s + alpha * r * beta])))"

definition adstock :: "'a::{plus,times} list \<Rightarrow> 'a \<Rightarrow> 'a \<Rightarrow> error + 'a list" where
  "adstock series alpha beta =
     (case iloc series 0 of
        Inl e \<Rightarrow> Inl e
      | Inr s0 \<Rightarrow> adstock_loop series alpha beta [1..<length series] [s0])"

subsection \<open>The dataset (lines 15-31)\<close>

text \<open>
  One row of \<^verbatim>\<open>df\<close>, with the thirteen columns of the dictionary \<^verbatim>\<open>data\<close>. A date is
  a timestamp (pandas keeps it as a count of nanoseconds); the callback's
  \<^verbatim>\<open>start_date\<close> and \<^verbatim>\<open>end_date\<close> are taken as timestamps already.
\<close>

record row =
  Product :: string
  Date :: int
  Sales :: int
  Paid_Search_Spend :: int
  Banner_Ads_Spend :: int
  Impressions_Paid_Search :: int
  Impressions_Banner_Ads :: int
  Clicks_Paid_Search :: int
  Clicks_Banner_Ads :: int
  Conversions_Paid_Search :: int
  Conversions_Banner_Ads :: int
  Customer_Loyalty :: real
  Perfect_Store_Score :: real

subsection \<open>Series operations\<close>

text \<open>
  The vectorised pandas operations the callback uses, on the values of a series. All
  series combined below come from the same frame, so they have the same length and the
  same index.
\<close>

definition series_ge :: "'a::linorder list \<Rightarrow> 'a \<Rightarrow> bool list" where
  "series_ge s c = map (\<lambda>v. c \<le> v) s"

definition series_le :: "'a::linorder list \<Rightarrow> 'a \<Rightarrow> bool list" where
  "series_le s c = map (\<lambda>v. v \<le> c) s"

definition series_and :: "bool list \<Rightarrow> bool list \<Rightarrow> bool list" where
  "series_and m1 m2 = map (\<lambda>(a, b). a \<and> b) (zip m1 m2)"

text \<open>
  The sum of two 64-bit signed integers, as numpy computes it: the exact sum reduced
  into the range from \<open>-2^63\<close> to \<open>2^63 - 1\<close>, silently.
\<close>

definition wrap_int64 :: "int \<Rightarrow> int" where
  "wrap_int64 x = (x + 2 ^ 63) mod 2 ^ 64 - 2 ^ 63"

definition series_add :: "int list \<Rightarrow> int list \<Rightarrow> int list" where
  "series_add s1 s2 = map (\<lambda>(a, b). wrap_int64 (a + b)) (zip s1 s2)"

definition isin :: "'a list \<Rightarrow> 'a list \<Rightarrow> bool list" where
  "isin s vals = map (\<lambda>v. v \<in> set vals) s"

text \<open>\<^verbatim>\<open>xs[mask]\<close>: the entries at the positions where the mask is true, in order.\<close>

definition getitem_mask :: "'a list \<Rightarrow> bool list \<Rightarrow> 'a list" where
  "getitem_mask xs bmask = map fst (filter snd (zip xs bmask))"

subsection \<open>The filter stage (lines 116-118)\<close>

text \<open>
  \<^verbatim>\<open>
  filtered_df = df[(df['Date'] >= start_date) & (df['Date'] <= end_date)]
  filtered_df = filtered_df[filtered_df['Product'].isin(selected_products)]
  filtered_df = filtered_df[(filtered_df['Paid_Search_Spend'] + filtered_df['Banner_Ads_Spend']) >= budget_threshold]
  \<close>
  The three masks, each computed from the frame it is applied to.
\<close>

definition date_mask :: "row list \<Rightarrow> int \<Rightarrow> int \<Rightarrow> bool list" where
  "date_mask d start_date end_date =
     series_and (series_ge (map Date d) start_date) (series_le (map Date d) end_date)"

definition product_mask :: "row list \<Rightarrow> string list \<Rightarrow> bool list" where
  "product_mask d selected_products = isin (map Product d) selected_products"

definition spend_mask :: "row list \<Rightarrow> real \<Rightarrow> bool list" where
  "spend_mask d budget_threshold =
     series_ge (map real_of_int (series_add (map Paid_Search_Spend d) (map Banner_Ads_Spend d)))
       budget_threshold"

definition filter_stage :: "row list \<Rightarrow> int \<Rightarrow> int \<Rightarrow> string list \<Rightarrow> real \<Rightarrow> row list" where
  "filter_stage d start_date end_date selected_products budget_threshold =
     (let filtered_df = getitem_mask d (date_mask d start_date end_date);
          filtered_df = getitem_mask filtered_df (product_mask filtered_df selected_products);
          filtered_df = getitem_mask filtered_df (spend_mask filtered_df budget_threshold)
      in filtered_df)"


subsection \<open>Diminishing returns (lines 131-132) and uplift (line 175)\<close>

text \<open>
  A float64 result: a real number, an infinity or not-a-number. \<^verbatim>\<open>x ** e\<close> on floats
  is 1 for a zero exponent, the real power for a positive base, 0 or infinity for a
  zero base, and for a negative base the integer power when \<open>e\<close> is integral and
  not-a-number otherwise. It never raises.
\<close>

datatype fval = Fin real | PosInf | NaN

definition float_pow :: "real \<Rightarrow> real \<Rightarrow> fval" where
  "float_pow x e =
     (if e = 0 then Fin 1
      else if 0 < x then Fin (x powr e)
      else if x = 0 then (if 0 < e then Fin 0 else PosInf)
      else if of_int \<lfloor>e\<rfloor> = e then Fin (x powi \<lfloor>e\<rfloor>)
      else NaN)"

text \<open>
  \<^verbatim>\<open>filtered_df['Paid_Search_Spend'] ** alpha\<close> (and the same with the banner column and
  \<^verbatim>\<open>beta\<close>): the power, element by element.
\<close>

definition diminishing :: "real list \<Rightarrow> real \<Rightarrow> fval list" where
  "diminishing spend_series exponent = map (\<lambda>x. float_pow x exponent) spend_series"

text \<open>
  \<^verbatim>\<open>filtered_df['Sales'] * (1 + alpha)\<close>: the series scaled by a scalar, again for any
  number type.
\<close>

definition uplift :: "'a::{one,plus,times} list \<Rightarrow> 'a \<Rightarrow> 'a list" where
  "uplift sales_series alpha = map (\<lambda>s. s * (1 + alpha)) sales_series"

subsection \<open>Frames as objects: the store\<close>

text \<open>
  A frame object holds the rows of the thirteen generated columns and the four columns
  the callback adds (absent until assigned). Frames live in a store, addressed by
  position; the module-level name \<^verbatim>\<open>df\<close> and the local name \<^verbatim>\<open>filtered_df\<close> hold
  addresses. Selecting with a boolean mask builds a new frame object (pandas copies
  the selected rows); a column assignment writes into the object it is applied to.
\<close>

record frame =
  rows :: "row list"
  Adstock_Paid_Search :: "real list option"
  Adstock_Banner_Ads :: "real list option"
  Diminishing_Paid_Search :: "fval list option"
  Diminishing_Banner_Ads :: "fval list option"

type_synonym addr = nat

definition frame_select :: "frame \<Rightarrow> bool list \<Rightarrow> frame" where
  "frame_select f bmask =
     \<lparr> rows = getitem_mask (rows f) bmask,
       Adstock_Paid_Search = map_option (\<lambda>c. getitem_mask c bmask) (Adstock_Paid_Search f),
       Adstock_Banner_Ads = map_option (\<lambda>c. getitem_mask c bmask) (Adstock_Banner_Ads f),
       Diminishing_Paid_Search = map_option (\<lambda>c. getitem_mask c bmask) (Diminishing_Paid_Search f),
       Diminishing_Banner_Ads = map_option (\<lambda>c. getitem_mask c bmask) (Diminishing_Banner_Ads f) \<rparr>"

text \<open>\<^verbatim>\<open>frame[mask]\<close>: the selection is a fresh object at the end of the store.\<close>

definition frame_getitem :: "frame list \<Rightarrow> addr \<Rightarrow> bool list \<Rightarrow> addr \<times> frame list" where
  "frame_getitem h a bmask = (length h, h @ [frame_select (h ! a) bmask])"

text \<open>
  \<^verbatim>\<open>frame[col] = values\<close>, in place. Assigning a plain list whose length is not the
  number of rows raises \<^verbatim>\<open>ValueError\<close>; assigning a series computed from the same
  frame aligns it on the frame's own index.
\<close>

definition frame_setitem_list ::
  "frame list \<Rightarrow> addr \<Rightarrow> ('v list \<Rightarrow> frame \<Rightarrow> frame) \<Rightarrow> 'v list \<Rightarrow> error + frame list" where
  "frame_setitem_list h a col vals =
     (if length vals = length (rows (h ! a)) then Inr (h[a := col vals (h ! a)])
      else Inl ValueError)"

definition frame_setitem_series ::
  "frame list \<Rightarrow> addr \<Rightarrow> ('v list \<Rightarrow> frame \<Rightarrow> frame) \<Rightarrow> 'v list \<Rightarrow> frame list" where
  "frame_setitem_series h a col vals = h[a := col vals (h ! a)]"

text \<open>A numeric column of a frame, read as a series of numbers.\<close>

definition column :: "frame list \<Rightarrow> addr \<Rightarrow> (row \<Rightarrow> int) \<Rightarrow> real list" where
  "column h a c = map (\<lambda>r. real_of_int (c r)) (rows (h ! a))"

subsection \<open>The callback (lines 115-179)\<close>

text \<open>
  What the six charts are drawn from: the filtered frame with its four added columns,
  and the uplifted sales series. Chart construction itself (plotly) is outside the
  embedding.
\<close>

record outputs =
  filtered_df :: frame
  uplifted_sales :: "real list"

text \<open>
  Lines 116-118 on the store: three selections, each a new object, with the same masks
  as \<open>filter_stage\<close>, which is these lines on the rows alone.
\<close>

definition filter_frames ::
  "frame list \<Rightarrow> addr \<Rightarrow> int \<Rightarrow> int \<Rightarrow> string list \<Rightarrow> real \<Rightarrow> addr \<times> frame list" where
  "filter_frames h df start_date end_date selected_products budget_threshold =
     (let (a1, h1) = frame_getitem h df (date_mask (rows (h ! df)) start_date end_date);
          (a2, h2) = frame_getitem h1 a1 (product_mask (rows (h1 ! a1)) selected_products);
          (a3, h3) = frame_getitem h2 a2 (spend_mask (rows (h2 ! a2)) budget_threshold)
      in (a3, h3))"

text \<open>
  Lines 127-132 on the store: the two adstock columns (a raise in \<^verbatim>\<open>adstock\<close> or in
  the assignment leaves the callback with the store as it is at that point), then the
  two diminishing-returns columns.
\<close>

definition assign_columns :: "frame list \<Rightarrow> addr \<Rightarrow> real \<Rightarrow> real \<Rightarrow> error option \<times> frame list" where
  "assign_columns h a alpha beta =
     (case adstock (column h a Paid_Search_Spend) alpha beta of
        Inl e \<Rightarrow> (Some e, h)
      | Inr ps \<Rightarrow>
     (case frame_setitem_list h a (\<lambda>v f. f\<lparr>Adstock_Paid_Search := Some v\<rparr>) ps of
        Inl e \<Rightarrow> (Some e, h)
      | Inr h4 \<Rightarrow>
     (case adstock (column h4 a Banner_Ads_Spend) alpha beta of
        Inl e \<Rightarrow> (Some e, h4)
      | Inr ba \<Rightarrow>
     (case frame_setitem_list h4 a (\<lambda>v f. f\<lparr>Adstock_Banner_Ads := Some v\<rparr>) ba of
        Inl e \<Rightarrow> (Some e, h4)
      | Inr h5 \<Rightarrow>
     (let h6 = frame_setitem_series h5 a (\<lambda>v f. f\<lparr>Diminishing_Paid_Search := Some v\<rparr>)
                 (diminishing (column h5 a Paid_Search_Spend) alpha);
          h7 = frame_setitem_series h6 a (\<lambda>v f. f\<lparr>Diminishing_Banner_Ads := Some v\<rparr>)
                 (diminishing (column h6 a Banner_Ads_Spend) beta)
      in (None, h7))))))"

text \<open>
  The callback: it takes the store and the address bound to \<^verbatim>\<open>df\<close>, and returns the
  chart data (or the exception raised) and the store it leaves.
\<close>

definition update_graphs ::
  "frame list \<Rightarrow> addr \<Rightarrow> string \<Rightarrow> string list \<Rightarrow> real \<Rightarrow> real \<Rightarrow> real \<Rightarrow> int \<Rightarrow> int
     \<Rightarrow> (error + outputs) \<times> frame list" where
  "update_graphs h df objective selected_products budget_threshold alpha beta start_date end_date =
     (let (a, h3) = filter_frames h df start_date end_date selected_products budget_threshold
      in case assign_columns h3 a alpha beta of
           (Some e, h') \<Rightarrow> (Inl e, h')
         | (None, h') \<Rightarrow>
             (Inr \<lparr> filtered_df = h' ! a,
                    uplifted_sales = uplift (column h' a Sales) alpha \<rparr>, h'))"

subsection \<open>Building frames (line 31)\<close>

text \<open>
  \<^verbatim>\<open>pd.DataFrame(data)\<close>: a frame built from rows has none of the four added
  columns. \<open>mk_row\<close> builds a row from the five columns the callback reads, the other
  eight set to zero; it is used to write small datasets down.
\<close>

definition DataFrame :: "row list \<Rightarrow> frame" where
  "DataFrame d =
     \<lparr> rows = d, Adstock_Paid_Search = None, Adstock_Banner_Ads = None,
       Diminishing_Paid_Search = None, Diminishing_Banner_Ads = None \<rparr>"

definition mk_row :: "string \<Rightarrow> int \<Rightarrow> int \<Rightarrow> int \<Rightarrow> int \<Rightarrow> row" where
  "mk_row product date sales paid banner =
     \<lparr> Product = product, Date = date, Sales = sales,
       Paid_Search_Spend = paid, Banner_Ads_Spend = banner,
       Impressions_Paid_Search = 0, Impressions_Banner_Ads = 0,
       Clicks_Paid_Search = 0, Clicks_Banner_Ads = 0,
       Conversions_Paid_Search = 0, Conversions_Banner_Ads = 0,
       Customer_Loyalty = 0, Perfect_Store_Score = 0 \<rparr>"

section \<open>Properties of adstock\<close>

lemma iloc_in_range: "i < length xs \<Longrightarrow> iloc xs (int i) = Inr (xs ! i)"
  by (simp add: iloc_def)

lemma iloc_pred: "0 < i \<Longrightarrow> i \<le> length xs \<Longrightarrow> iloc xs (int i - 1) = Inr (xs ! (i - 1))"
  by (simp add: iloc_def nat_diff_distrib')

lemma iloc_empty: "iloc [] 0 = Inl IndexError"
  by (simp add: iloc_def)

text \<open>
  The loop invariant: on entry to the iteration for position \<open>i\<close> the list
  \<open>result\<close> has exactly \<open>i\<close> elements. Under it no read raises, the loop returns a
  list as long as the series, it keeps the part already built, and each element it
  appends obeys the recurrence.
\<close>

lemma adstock_loop_inv:
  assumes "length result = i" and "0 < i" and "i \<le> length series"
  shows "\<exists>R. adstock_loop series alpha beta [i..<length series] result = Inr R
             \<and> length R = length series
             \<and> take i R = result
             \<and> (\<forall>j. i \<le> j \<and> j < length series \<longrightarrow>
                    R ! j = series ! j + alpha * R ! (j - 1) * beta)"
  using assms
proof (induction "length series - i" arbitrary: i result)
  case 0
  then have "i = length series" by simp
  with 0 show ?case by auto
next
  case (Suc k)
  then have lt: "i < length series" by simp
  define v where "v = series ! i + alpha * result ! (i - 1) * beta"
  have k: "k = length series - Suc i" using Suc.hyps(2) by simp
  have len: "length (result @ [v]) = Suc i" using Suc.prems(1) by simp
  from Suc.hyps(1) [OF k len] lt
  obtain R where R: "adstock_loop series alpha beta [Suc i..<length series] (result @ [v]) = Inr R"
    and lenR: "length R = length series"
    and tk: "take (Suc i) R = result @ [v]"
    and rec: "\<forall>j. Suc i \<le> j \<and> j < length series \<longrightarrow>
                 R ! j = series ! j + alpha * R ! (j - 1) * beta"
    by auto
  have step: "adstock_loop series alpha beta [i..<length series] result = Inr R"
    using lt Suc.prems R
    by (simp add: upt_conv_Cons iloc_in_range iloc_pred v_def)
  have tki: "take i R = result"
  proof -
    have "take i R = take i (take (Suc i) R)" by (simp add: min_def)
    also have "\<dots> = result" using tk Suc.prems(1) by simp
    finally show ?thesis .
  qed
  have Ri: "R ! i = v"
  proof -
    have "R ! i = take (Suc i) R ! i" by simp
    also have "\<dots> = v" using tk Suc.prems(1) by (simp add: nth_append)
    finally show ?thesis .
  qed
  have Rp: "R ! (i - 1) = result ! (i - 1)"
  proof -
    have "R ! (i - 1) = take i R ! (i - 1)" using Suc.prems(2) by simp
    then show ?thesis using tki by simp
  qed
  have "R ! j = series ! j + alpha * R ! (j - 1) * beta" if "i \<le> j" "j < length series" for j
  proof (cases "j = i")
    case True
    then show ?thesis using Ri Rp by (simp add: v_def)
  next
    case False
    with that have "Suc i \<le> j" by simp
    with rec that show ?thesis by blast
  qed
  with step lenR tki show ?case by blast
qed

lemma adstock_nonempty:
  assumes "series \<noteq> []"
  shows "\<exists>R. adstock series alpha beta = Inr R
             \<and> length R = length series
             \<and> R ! 0 = series ! 0
             \<and> (\<forall>j. 1 \<le> j \<and> j < length series \<longrightarrow>
                    R ! j = series ! j + alpha * R ! (j - 1) * beta)"
proof -
  from assms have pos: "0 < length series" by simp
  then have seed: "iloc series 0 = Inr (series ! 0)"
    using iloc_in_range [of 0 series] by simp
  have "length [series ! 0] = 1" "0 < (1::nat)" "1 \<le> length series"
    using assms by (simp_all add: Suc_le_eq)
  from adstock_loop_inv [OF this, of alpha beta]
  obtain R where R: "adstock_loop series alpha beta [1..<length series] [series ! 0] = Inr R"
    and lenR: "length R = length series"
    and tk: "take 1 R = [series ! 0]"
    and rec: "\<forall>j. 1 \<le> j \<and> j < length series \<longrightarrow>
                 R ! j = series ! j + alpha * R ! (j - 1) * beta"
    by blast
  have "R ! 0 = take 1 R ! 0" by simp
  with tk have "R ! 0 = series ! 0" by simp
  moreover have "adstock series alpha beta = Inr R"
    using seed R by (simp add: adstock_def)
  ultimately show ?thesis using lenR rec by blast
qed

lemma adstock_Nil: "adstock [] alpha beta = Inl IndexError"
  by (simp add: adstock_def iloc_empty)

lemma adstock_example:
  "adstock [100, 200, 300] (1/2) (1/2) = Inr [100, 225, 356.25 :: real]"
  by (simp add: adstock_def iloc_def upt_rec)

text \<open>
  C1: for every non-empty spend series \<open>S\<close> the call \<open>adstock S alpha beta\<close> returns a
  list \<open>R\<close> of the length of \<open>S\<close> with \<open>R[0] = S[0]\<close> and
  \<open>R[i] = S[i] + alpha * R[i-1] * beta\<close> for \<open>i\<close> from 1 to \<open>n-1\<close>; in particular
  \<open>adstock [100, 200, 300] 0.5 0.5 = [100, 225, 356.25]\<close>. The recurrence needs no
  assumption on \<open>alpha\<close> and \<open>beta\<close>, so it holds on the sliders' range [0.01, 1.0],
  and none on the arithmetic.
\<close>

theorem adstock_recurrence:
  "(S \<noteq> [] \<longrightarrow>
      (\<exists>R. adstock S alpha beta = Inr R
          \<and> length R = length S
          \<and> R ! 0 = S ! 0
          \<and> (\<forall>i. 1 \<le> i \<and> i < length S \<longrightarrow> R ! i = S ! i + alpha * R ! (i - 1) * beta)))
   \<and> adstock [100, 200, 300] (1/2) (1/2) = Inr [100, 225, 356.25 :: real]"
  using adstock_nonempty [of S alpha beta] adstock_example by blast

theorem adstock_recurrence_witness:
  "[100, 200, 300] \<noteq> ([] :: real list)
   \<and> (\<exists>R. adstock [100, 200, 300] (1/2) (1/2) = Inr R
          \<and> length R = 3 \<and> R ! 0 = 100 \<and> R ! 1 = 225 \<and> R ! 2 = (356.25 :: real))"
proof -
  let ?S = "[100, 200, 300] :: real list"
  have ne: "?S \<noteq> []" by simp
  from adstock_recurrence [of ?S "1/2" "1/2"] ne
  obtain R where R: "adstock ?S (1/2) (1/2) = Inr R"
    and len: "length R = length ?S"
    and r0: "R ! 0 = ?S ! 0"
    and rec: "\<forall>i. 1 \<le> i \<and> i < length ?S \<longrightarrow> R ! i = ?S ! i + (1/2) * R ! (i - 1) * (1/2)"
    by blast
  from rec have "R ! 1 = ?S ! 1 + (1/2) * R ! (1 - 1) * (1/2)" by simp
  with r0 have r1: "R ! 1 = 225" by simp
  from rec have "R ! 2 = ?S ! 2 + (1/2) * R ! (2 - 1) * (1/2)" by simp
  with r1 have r2: "R ! 2 = 356.25" by simp
  from R len r0 r1 r2 ne show ?thesis by simp
qed

text \<open>
  C2 states that \<open>adstock\<close> of the empty series returns the empty list without
  raising. The code does otherwise: on the empty series the first statement of
  \<^verbatim>\<open>adstock\<close>, \<^verbatim>\<open>result = [series.iloc[0]]\<close>, raises \<^verbatim>\<open>IndexError\<close>, whatever
  \<open>alpha\<close> and \<open>beta\<close> are, and no list is returned.
\<close>

theorem adstock_empty_raises: "adstock [] alpha beta = Inl IndexError"
  by (rule adstock_Nil)

text \<open>
  C6: for every non-empty spend series \<open>S\<close>, \<open>adstock S alpha beta\<close> returns a list
  of the length of \<open>S\<close>.
\<close>

theorem adstock_length:
  "S \<noteq> [] \<Longrightarrow> \<exists>R. adstock S alpha beta = Inr R \<and> length R = length S"
  using adstock_nonempty [of S alpha beta] by blast

theorem adstock_length_witness:
  "[500, 4999] \<noteq> ([] :: real list)
   \<and> (\<exists>R. adstock [500, 4999] (1/100) (1 :: real) = Inr R \<and> length R = 2)"
proof -
  have "[500, 4999] \<noteq> ([] :: real list)" by simp
  from this adstock_length [OF this, of "1/100" 1] show ?thesis
    by (simp add: numeral_2_eq_2)
qed

section \<open>Properties of the filter stage\<close>

lemma getitem_mask_map: "getitem_mask xs (map P xs) = filter P xs"
  by (induction xs) (simp_all add: getitem_mask_def)

lemma date_mask_map:
  "date_mask d s e = map (\<lambda>r. s \<le> Date r \<and> Date r \<le> e) d"
  by (simp add: date_mask_def series_and_def series_ge_def series_le_def
      zip_map_map zip_same_conv_map)

lemma product_mask_map:
  "product_mask d ps = map (\<lambda>r. Product r \<in> set ps) d"
  by (simp add: product_mask_def isin_def)

lemma spend_mask_map:
  "spend_mask d t
     = map (\<lambda>r. t \<le> real_of_int (wrap_int64 (Paid_Search_Spend r + Banner_Ads_Spend r))) d"
  by (simp add: spend_mask_def series_ge_def series_add_def zip_map_map zip_same_conv_map)


text \<open>
  The three successive selections of the code are one pass that keeps the rows passing
  the three tests; the spend test is on the 64-bit sum.
\<close>

lemma filter_stage_code:
  "filter_stage d lo hi ps t
     = filter (\<lambda>r. lo \<le> Date r \<and> Date r \<le> hi \<and> Product r \<in> set ps
                  \<and> t \<le> real_of_int (wrap_int64 (Paid_Search_Spend r + Banner_Ads_Spend r))) d"
  by (simp add: filter_stage_def Let_def getitem_mask_map date_mask_map product_mask_map
      spend_mask_map conj_assoc)





text \<open>
  C7: with \<open>date_lower > date_upper\<close> the filter stage returns the empty result, for
  every dataset, product selection and minimum spend; the three selections raise
  nothing.
\<close>

theorem filter_stage_inverted_range:
  "date_upper < date_lower \<Longrightarrow>
     filter_stage d date_lower date_upper allowed_products min_combined_spend = []"
  by (auto simp add: filter_stage_code filter_empty_conv)

theorem filter_stage_inverted_range_witness:
  "(2::int) < 3
   \<and> filter_stage [mk_row ''A'' 1 10 500 300, mk_row ''B'' 2 20 600 400, mk_row ''C'' 3 30 700 500]
        3 2 [''A'', ''B'', ''C''] 0 = []"
proof -
  have "(2::int) < 3" by simp
  from this filter_stage_inverted_range [OF this] show ?thesis by simp
qed

text \<open>
  C8: the filter stage is idempotent: filtering its own output with the same
  predicates returns the same rows.
\<close>

theorem filter_stage_idempotent:
  "filter_stage (filter_stage d date_lower date_upper allowed_products min_combined_spend)
     date_lower date_upper allowed_products min_combined_spend
   = filter_stage d date_lower date_upper allowed_products min_combined_spend"
  by (simp add: filter_stage_code)

section \<open>Properties of the diminishing-returns and uplift series\<close>

lemma float_pow_nonneg_base:
  assumes "0 \<le> x" and "0 < e"
  shows "float_pow x e = Fin (x powr e)"
  using assms by (simp add: float_pow_def)

lemma sqrt_100: "sqrt 100 = 10"
proof -
  have "sqrt ((10::real)\<^sup>2) = \<bar>10\<bar>" by (rule real_sqrt_abs)
  then show ?thesis by simp
qed

lemma sqrt_400: "sqrt 400 = 20"
proof -
  have "sqrt ((20::real)\<^sup>2) = \<bar>20\<bar>" by (rule real_sqrt_abs)
  then show ?thesis by simp
qed

lemma diminishing_example: "diminishing [100, 400] (1/2) = [Fin 10, Fin 20]"
  by (simp add: diminishing_def float_pow_def powr_half_sqrt sqrt_100 sqrt_400)

text \<open>
  C4: the diminishing-returns series has one element per input element, the power
  \<open>spend_series[i] ** exponent\<close>; when the inputs are non-negative and the exponent
  lies in [0.01, 1.0], every element is a finite non-negative number (the real power);
  and \<open>diminishing [100, 400] 0.5 = [10, 20]\<close>.
\<close>

theorem diminishing_elementwise:
  "length (diminishing S e) = length S
   \<and> (\<forall>i<length S. diminishing S e ! i = float_pow (S ! i) e)
   \<and> ((\<forall>x\<in>set S. 0 \<le> x) \<and> 1/100 \<le> e \<and> e \<le> 1 \<longrightarrow>
        (\<forall>y\<in>set (diminishing S e). \<exists>r. y = Fin r \<and> 0 \<le> r)
        \<and> (\<forall>i<length S. diminishing S e ! i = Fin (S ! i powr e)))
   \<and> diminishing [100, 400] (1/2) = [Fin 10, Fin 20]"
proof -
  have finite: "(\<forall>y\<in>set (diminishing S e). \<exists>r. y = Fin r \<and> 0 \<le> r)
                \<and> (\<forall>i<length S. diminishing S e ! i = Fin (S ! i powr e))"
    if nonneg: "\<forall>x\<in>set S. 0 \<le> x" and lo: "1/100 \<le> e"
  proof -
    from lo have pos: "0 < e" by simp
    have el: "float_pow x e = Fin (x powr e)" if "x \<in> set S" for x
      using that nonneg pos by (simp add: float_pow_nonneg_base)
    have "\<exists>r. y = Fin r \<and> 0 \<le> r" if "y \<in> set (diminishing S e)" for y
    proof -
      from that obtain x where "x \<in> set S" and "y = float_pow x e"
        by (auto simp add: diminishing_def)
      with el have "y = Fin (x powr e)" by simp
      then show ?thesis by simp
    qed
    moreover have "diminishing S e ! i = Fin (S ! i powr e)" if "i < length S" for i
      using that el [of "S ! i"] by (simp add: diminishing_def)
    ultimately show ?thesis by blast
  qed
  have "length (diminishing S e) = length S"
    by (simp add: diminishing_def)
  moreover have "\<forall>i<length S. diminishing S e ! i = float_pow (S ! i) e"
    by (simp add: diminishing_def)
  ultimately show ?thesis using finite diminishing_example by blast
qed

theorem diminishing_elementwise_witness:
  "(0::real) \<le> 100 \<and> (0::real) \<le> 400 \<and> (1/100::real) \<le> 1/2 \<and> (1/2::real) \<le> 1
   \<and> (0::nat) < length [100::real, 400] \<and> 1 < length [100::real, 400]
   \<and> diminishing [100, 400] (1/2) ! 0 = Fin 10
   \<and> diminishing [100, 400] (1/2) ! 1 = Fin 20
   \<and> (\<exists>r. diminishing [100, 400] (1/2) ! 1 = Fin r \<and> 0 \<le> r)"
proof -
  have hyp: "(\<forall>x\<in>set [100::real, 400]. 0 \<le> x) \<and> (1/100::real) \<le> 1/2 \<and> (1/2::real) \<le> 1"
    by simp
  from diminishing_elementwise [of "[100, 400]" "1/2"] hyp
  have el: "\<forall>i<length [100::real, 400]. diminishing [100, 400] (1/2) ! i = Fin ([100, 400] ! i powr (1/2))"
    by blast
  from el have "diminishing [100, 400] (1/2) ! 0 = Fin ([100, 400] ! 0 powr (1/2))"
    by simp
  then have d0: "diminishing [100, 400] (1/2) ! 0 = Fin 10"
    by (simp add: powr_half_sqrt sqrt_100)
  from el have "diminishing [100, 400] (1/2) ! 1 = Fin ([100, 400] ! 1 powr (1/2))"
    by simp
  then have d1: "diminishing [100, 400] (1/2) ! 1 = Fin 20"
    by (simp add: powr_half_sqrt sqrt_400)
  from d0 d1 show ?thesis by simp
qed

lemma uplift_example: "uplift [1000, 2000] (1/10) = [1100, 2200 :: real]"
  by (simp add: uplift_def)

text \<open>
  C5: the uplifted series has one element per sales element, \<open>sales[i] * (1 + alpha)\<close>;
  in particular \<open>uplift [1000, 2000] 0.1 = [1100, 2200]\<close>.
\<close>

theorem uplift_elementwise:
  "length (uplift sales alpha) = length sales
   \<and> (\<forall>i<length sales. uplift sales alpha ! i = sales ! i * (1 + alpha))
   \<and> uplift [1000, 2000] (1/10) = [1100, 2200 :: real]"
  using uplift_example by (simp add: uplift_def)

theorem uplift_elementwise_witness:
  "(1::nat) < length [1000::real, 2000]
   \<and> length (uplift [1000, 2000 :: real] (1/10)) = 2
   \<and> uplift [1000, 2000] (1/10) ! 1 = (2200 :: real)"
proof -
  let ?S = "[1000, 2000] :: real list"
  let ?a = "1/10 :: real"
  note inst = uplift_elementwise [of ?S ?a]
  have lt: "1 < length ?S" by simp
  from inst have len: "length (uplift ?S ?a) = length ?S"
    by (rule conjunct1)
  from inst have "\<forall>i<length ?S. uplift ?S ?a ! i = ?S ! i * (1 + ?a)"
    by (rule conjunct1 [OF conjunct2])
  then have "1 < length ?S \<longrightarrow> uplift ?S ?a ! 1 = ?S ! 1 * (1 + ?a)"
    by (rule spec)
  from this lt have "uplift ?S ?a ! 1 = ?S ! 1 * (1 + ?a)"
    by (rule mp)
  then have "uplift ?S ?a ! 1 = 2200" by simp
  with lt len show ?thesis by simp
qed

section \<open>Properties of the callback\<close>

text \<open>
  The filter stage on the store: the three selections append three objects, the last
  of which is \<^verbatim>\<open>filtered_df\<close>; the objects already in the store are untouched, and
  the rows of \<^verbatim>\<open>filtered_df\<close> are those of the filter stage on values.
\<close>

lemma filter_frames_store:
  assumes "filter_frames h df s e ps t = (a, h')"
  shows "a = length h + 2 \<and> length h' = length h + 3 \<and> take (length h) h' = h"
  using assms
  by (auto simp add: filter_frames_def frame_getitem_def Let_def)

lemma filter_frames_rows:
  assumes "df < length h" and "filter_frames h df s e ps t = (a, h')"
  shows "rows (h' ! a) = filter_stage (rows (h ! df)) s e ps t"
  using assms
  by (auto simp add: filter_frames_def frame_getitem_def Let_def filter_stage_def nth_append
      frame_select_def)

text \<open>The column assignments write into the object they are applied to, and no other.\<close>

lemma assign_columns_other:
  assumes "a' \<noteq> a"
  shows "snd (assign_columns h a alpha beta) ! a' = h ! a'"
  using assms
  by (auto simp add: assign_columns_def frame_setitem_list_def frame_setitem_series_def Let_def
      split: sum.splits if_splits)

lemma assign_columns_length:
  "length (snd (assign_columns h a alpha beta)) = length h"
  by (auto simp add: assign_columns_def frame_setitem_list_def frame_setitem_series_def Let_def
      split: sum.splits if_splits)

lemma assign_columns_take:
  "n \<le> a \<Longrightarrow> take n (snd (assign_columns h a alpha beta)) = take n h"
  by (auto simp add: assign_columns_def frame_setitem_list_def frame_setitem_series_def Let_def
      split: sum.splits if_splits)

lemma update_graphs_store:
  "snd (update_graphs h df objective ps t alpha beta s e)
     = snd (assign_columns (snd (filter_frames h df s e ps t)) (fst (filter_frames h df s e ps t))
              alpha beta)"
  by (simp add: update_graphs_def split: prod.splits option.splits)

text \<open>
  What the callback returns. On an empty selection the first call of \<^verbatim>\<open>adstock\<close>
  raises; otherwise the callback returns the filtered rows with the four columns
  computed from them and the uplifted sales, and no assignment raises.
\<close>

lemma update_graphs_empty_raises:
  assumes "df < length h" and "filter_stage (rows (h ! df)) s e ps t = []"
  shows "fst (update_graphs h df objective ps t alpha beta s e) = Inl IndexError"
proof -
  obtain a h3 where ff: "filter_frames h df s e ps t = (a, h3)"
    by (cases "filter_frames h df s e ps t")
  from filter_frames_rows [OF assms(1) ff] assms(2) have "rows (h3 ! a) = []" by simp
  then have "column h3 a Paid_Search_Spend = []" by (simp add: column_def)
  then have "assign_columns h3 a alpha beta = (Some IndexError, h3)"
    by (simp add: assign_columns_def adstock_Nil)
  then show ?thesis by (simp add: update_graphs_def ff)
qed

lemma update_graphs_no_product_raises:
  assumes "df < length h"
  shows "fst (update_graphs h df objective [] t alpha beta s e) = Inl IndexError"
proof -
  have "filter_stage (rows (h ! df)) s e [] t = []"
    by (simp add: filter_stage_code)
  with assms show ?thesis by (rule update_graphs_empty_raises)
qed

lemma update_graphs_returns:
  assumes "df < length h" and "filter_stage (rows (h ! df)) s e ps t \<noteq> []"
  shows "\<exists>out R1 R2. fst (update_graphs h df objective ps t alpha beta s e) = Inr out
           \<and> rows (filtered_df out) = filter_stage (rows (h ! df)) s e ps t
           \<and> adstock (map (\<lambda>r. real_of_int (Paid_Search_Spend r)) (rows (filtered_df out))) alpha beta = Inr R1
           \<and> Adstock_Paid_Search (filtered_df out) = Some R1
           \<and> adstock (map (\<lambda>r. real_of_int (Banner_Ads_Spend r)) (rows (filtered_df out))) alpha beta = Inr R2
           \<and> Adstock_Banner_Ads (filtered_df out) = Some R2
           \<and> Diminishing_Paid_Search (filtered_df out)
               = Some (diminishing (map (\<lambda>r. real_of_int (Paid_Search_Spend r)) (rows (filtered_df out))) alpha)
           \<and> Diminishing_Banner_Ads (filtered_df out)
               = Some (diminishing (map (\<lambda>r. real_of_int (Banner_Ads_Spend r)) (rows (filtered_df out))) beta)
           \<and> uplifted_sales out
               = uplift (map (\<lambda>r. real_of_int (Sales r)) (rows (filtered_df out))) alpha"
proof -
  obtain a h3 where ff: "filter_frames h df s e ps t = (a, h3)"
    by (cases "filter_frames h df s e ps t")
  let ?F = "filter_stage (rows (h ! df)) s e ps t"
  from filter_frames_rows [OF assms(1) ff] have rows3: "rows (h3 ! a) = ?F" .
  from filter_frames_store [OF ff] have alt: "a < length h3" by simp
  let ?P = "map (\<lambda>r. real_of_int (Paid_Search_Spend r)) ?F"
  let ?B = "map (\<lambda>r. real_of_int (Banner_Ads_Spend r)) ?F"
  from assms(2) have "?P \<noteq> []" "?B \<noteq> []" by simp_all
  from adstock_nonempty [OF this(1), of alpha beta] adstock_nonempty [OF this(2), of alpha beta]
  obtain R1 R2 where R1: "adstock ?P alpha beta = Inr R1" and l1: "length R1 = length ?F"
    and R2: "adstock ?B alpha beta = Inr R2" and l2: "length R2 = length ?F"
    by auto
  show ?thesis
    using rows3 alt R1 l1 R2 l2
    by (simp add: update_graphs_def ff assign_columns_def column_def frame_setitem_list_def
        frame_setitem_series_def Let_def)
qed

text \<open>
  C9: the callback's result (the filtered rows, the derived series, and the store it
  leaves) does not depend on the objective: two invocations that differ only in the
  objective are equal.
\<close>

theorem update_graphs_objective_unused:
  "update_graphs h df objective1 selected_products budget_threshold alpha beta start_date end_date
   = update_graphs h df objective2 selected_products budget_threshold alpha beta start_date end_date"
  by (simp add: update_graphs_def)

text \<open>
  C10: an invocation of the callback, whether it returns or raises, leaves every object
  that was in the store before it as it was; in particular the frame bound to
  \<^verbatim>\<open>df\<close> is unchanged after the selections and the four column assignments.
\<close>

theorem update_graphs_df_unchanged:
  "take (length h) (snd (update_graphs h df objective ps t alpha beta s e)) = h
   \<and> (df < length h \<longrightarrow> snd (update_graphs h df objective ps t alpha beta s e) ! df = h ! df)"
proof -
  obtain a h3 where ff: "filter_frames h df s e ps t = (a, h3)"
    by (cases "filter_frames h df s e ps t")
  from filter_frames_store [OF ff]
  have a: "a = length h + 2" and tk: "take (length h) h3 = h" by simp_all
  let ?h' = "snd (update_graphs h df objective ps t alpha beta s e)"
  have h': "?h' = snd (assign_columns h3 a alpha beta)"
    by (simp add: update_graphs_store ff)
  have "take (length h) ?h' = take (length h) h3"
    unfolding h' using a by (simp add: assign_columns_take)
  with tk have pre: "take (length h) ?h' = h" by simp
  moreover have "?h' ! df = h ! df" if "df < length h"
  proof -
    have "take (length h) ?h' ! df = ?h' ! df" using that by simp
    with pre show ?thesis by simp
  qed
  ultimately show ?thesis by blast
qed

theorem update_graphs_df_unchanged_witness:
  "(0::nat) < length [DataFrame [mk_row ''Pet Food'' 1 10000 500 300, mk_row ''Other'' 2 20000 600 400]]
   \<and> snd (update_graphs
             [DataFrame [mk_row ''Pet Food'' 1 10000 500 300, mk_row ''Other'' 2 20000 600 400]] 0
             ''Sales'' [''Pet Food''] 800 (1/2) (1/2) 1 2) ! 0
       = DataFrame [mk_row ''Pet Food'' 1 10000 500 300, mk_row ''Other'' 2 20000 600 400]"
proof -
  let ?h = "[DataFrame [mk_row ''Pet Food'' 1 10000 500 300, mk_row ''Other'' 2 20000 600 400]]"
  have lt: "(0::nat) < length ?h" by simp
  from update_graphs_df_unchanged [of ?h 0 "''Sales''" "[''Pet Food'']" 800 "1/2" "1/2" 1 2] lt
  have "snd (update_graphs ?h 0 ''Sales'' [''Pet Food''] 800 (1/2) (1/2) 1 2) ! 0 = ?h ! 0"
    by blast
  with lt show ?thesis by simp
qed

end
